theory Spec2Isabelle
  imports Main
begin

section \<open>Strings\<close>

text \<open>
  Python strings are modelled as HOL strings, read as sequences of the code points 0 to 255.
  \<open>str.strip()\<close> removes the characters for which \<open>str.isspace()\<close> holds from both
  ends; in this range they are the twelve characters of \<open>whitespace\<close>.
  \<open>str.lower()\<close> maps the upper-case letters of this range to their lower-case letters.
\<close>

definition whitespace :: "char list" where
  "whitespace = [CHR 0x09, CHR 0x0A, CHR 0x0B, CHR 0x0C, CHR 0x0D, CHR 0x1C, CHR 0x1D,
                 CHR 0x1E, CHR 0x1F, CHR 0x20, CHR 0x85, CHR 0xA0]"

definition isspace :: "char \<Rightarrow> bool" where
  "isspace c = (c \<in> set whitespace)"

definition strip :: "string \<Rightarrow> string" where
  "strip s = rev (dropWhile isspace (rev (dropWhile isspace s)))"

definition lower_char :: "char \<Rightarrow> char" where
  "lower_char c =
     (let n = (of_char c :: nat)
      in if (65 \<le> n \<and> n \<le> 90) \<or> (192 \<le> n \<and> n \<le> 214) \<or> (216 \<le> n \<and> n \<le> 222)
         then char_of (n + 32) else c)"

definition lower :: "string \<Rightarrow> string" where
  "lower s = map lower_char s"

section \<open>Exceptions as values\<close>

datatype error = IndexError | KeyError | ValueError | AttributeError | InvalidXmlError

definition bind :: "error + 'a \<Rightarrow> ('a \<Rightarrow> error + 'b) \<Rightarrow> error + 'b" where
  "bind m f = (case m of Inl e \<Rightarrow> Inl e | Inr x \<Rightarrow> f x)"

text \<open>A list comprehension whose element expression may raise: the first exception wins.\<close>

fun mapM :: "('a \<Rightarrow> error + 'b) \<Rightarrow> 'a list \<Rightarrow> error + 'b list" where
  "mapM f [] = Inr []"
| "mapM f (x # xs) = bind (f x) (\<lambda>y. bind (mapM f xs) (\<lambda>ys. Inr (y # ys)))"

text \<open>\<open>xs[i]\<close> for a non-negative index.\<close>

definition nth_e :: "'a list \<Rightarrow> nat \<Rightarrow> error + 'a" where
  "nth_e xs i = (if i < length xs then Inr (xs ! i) else Inl IndexError)"

text \<open>\<open>xs.index(x)\<close>: the first position of \<open>x\<close>, ValueError when it is absent.\<close>

fun index_from :: "nat \<Rightarrow> 'a list \<Rightarrow> 'a \<Rightarrow> error + nat" where
  "index_from i [] x = Inl ValueError"
| "index_from i (y # ys) x = (if y = x then Inr i else index_from (Suc i) ys x)"

definition index :: "'a list \<Rightarrow> 'a \<Rightarrow> error + nat" where
  "index xs x = index_from 0 xs x"

section \<open>Cells, tables, shapes, slides\<close>

text \<open>
  A cell owns its text and the font of its runs. \<open>cell_font = None\<close> is a cell whose runs
  carry no font of their own, as after its text has been written.
\<close>

record font =
  font_name :: string
  font_size :: int
  font_bold :: bool

record cell =
  cell_text :: string
  cell_font :: "font option"

definition Pt :: "int \<Rightarrow> int" where
  "Pt n = n * 12700"

definition FONT_NAME :: string where "FONT_NAME = ''Calibri''"
definition FONT_SIZE :: int where "FONT_SIZE = Pt 11"
definition HEADER_BOLD :: bool where "HEADER_BOLD = True"
definition BODY_BOLD :: bool where "BODY_BOLD = False"
definition MAX_BODY_ROWS :: int where "MAX_BODY_ROWS = 8"

text \<open>\<open>set_cell_style\<close> gives every run of the cell the fixed font; the text is not touched.\<close>

definition set_cell_style :: "bool \<Rightarrow> cell \<Rightarrow> cell" where
  "set_cell_style is_header c =
     c\<lparr>cell_font := Some \<lparr>font_name = FONT_NAME, font_size = FONT_SIZE,
                           font_bold = (if is_header then HEADER_BOLD else BODY_BOLD)\<rparr>\<rparr>"

text \<open>\<open>cell.text = s\<close> replaces the runs of the cell: the text is \<open>s\<close>, the font is unset.\<close>

definition set_text :: "string \<Rightarrow> cell \<Rightarrow> cell" where
  "set_text s c = c\<lparr>cell_text := s, cell_font := None\<rparr>"

text \<open>
  The width of a grid column: \<open>Unreadable\<close> when reading it raises, \<open>Auto\<close> the width a
  freshly created table gives the column, \<open>Emu w\<close> an explicit width.
\<close>

datatype col_width = Unreadable | Auto | Emu int

text \<open>
  A table is its column grid and its rows of cells. \<open>tbl_grid = None\<close> is a table whose
  grid cannot be read: \<open>len(table.columns)\<close> raises.
\<close>

record table =
  tbl_grid :: "col_width list option"
  tr_lst :: "cell list list"

definition num_rows :: "table \<Rightarrow> nat" where
  "num_rows t = length (tr_lst t)"

definition num_cols :: "table \<Rightarrow> error + nat" where
  "num_cols t = (case tbl_grid t of None \<Rightarrow> Inl InvalidXmlError | Some g \<Rightarrow> Inr (length g))"

text \<open>\<open>table.cell(r, c)\<close>: IndexError outside the rows, or outside the cells of row \<open>r\<close>.\<close>

definition cell_at :: "table \<Rightarrow> nat \<Rightarrow> nat \<Rightarrow> error + cell" where
  "cell_at t r c = bind (nth_e (tr_lst t) r) (\<lambda>row. nth_e row c)"

text \<open>\<open>[table.cell(0, c).text.strip() for c in range(cols)]\<close>\<close>

definition header_texts :: "table \<Rightarrow> nat \<Rightarrow> error + string list" where
  "header_texts t cols = mapM (\<lambda>c. bind (cell_at t 0 c) (\<lambda>x. Inr (strip (cell_text x)))) [0..<cols]"

record geometry =
  left :: int
  top :: int
  width :: int
  height :: int

text \<open>A shape either holds a table (\<open>has_table\<close>) or is some other shape, known by its name.\<close>

datatype shape = Shape string | GraphicFrame geometry table

text \<open>A layout is its name and the placeholders a slide created from it starts with.\<close>

datatype layout = Layout string "string list"

record slide =
  slide_layout :: layout
  shapes :: "shape list"

section \<open>Header Matcher\<close>

definition required_ppt_cols :: "string list" where
  "required_ppt_cols = [''AI Tool'', ''Tool Description'', ''Requestor'', ''Current State'']"

text \<open>
  \<open>_table_headers_and_indices\<close>: \<open>Inr None\<close> is the pair \<open>(None, None)\<close>. Only the two
  \<open>len\<close> calls are inside the \<open>try\<close>; the header cells are read after it.
\<close>

definition table_headers_and_indices ::
  "table \<Rightarrow> error + (string list \<times> (string \<rightharpoonup> nat)) option" where
  "table_headers_and_indices t =
     (case num_cols t of
        Inl e \<Rightarrow> Inr None
      | Inr ncols \<Rightarrow>
          if num_rows t = 0 \<or> ncols = 0 then Inr None
          else bind (header_texts t ncols) (\<lambda>hdrs.
            if \<not> (\<forall>col \<in> set required_ppt_cols. col \<in> set hdrs) then Inr None
            else bind (mapM (\<lambda>col. bind (index hdrs col) (\<lambda>i. Inr (col, i))) required_ppt_cols)
                   (\<lambda>kvs. Inr (Some (hdrs, map_of kvs)))))"

section \<open>References into the document\<close>

text \<open>
  The run keeps references to a slide, a shape and a table. Slides are only ever appended,
  so a slide is referred to by its position in the presentation. A shape that is on its
  slide is referred to by its position among the slide's shapes (\<open>Attached\<close>); a shape
  object that has been removed from its slide is \<open>Detached\<close> and keeps its content.
  A position outside the list denotes no object of the program and reads as IndexError.
\<close>

datatype shape_ref = Attached nat | Detached shape

definition deref :: "slide \<Rightarrow> shape_ref \<Rightarrow> error + shape" where
  "deref sl r = (case r of Attached i \<Rightarrow> nth_e (shapes sl) i | Detached sh \<Rightarrow> Inr sh)"

text \<open>\<open>shape.table\<close> with the frame's geometry; a shape without a table raises.\<close>

definition shape_table :: "shape \<Rightarrow> error + geometry \<times> table" where
  "shape_table sh = (case sh of Shape n \<Rightarrow> Inl AttributeError | GraphicFrame g t \<Rightarrow> Inr (g, t))"

definition remove_nth :: "nat \<Rightarrow> 'a list \<Rightarrow> 'a list" where
  "remove_nth i xs = take i xs @ drop (Suc i) xs"

section \<open>Grid Table Adapter: creating tables, column widths\<close>

definition empty_cell :: cell where
  "empty_cell = \<lparr>cell_text = [], cell_font = None\<rparr>"

text \<open>\<open>shapes.add_table(rows, cols, left, top, width, height)\<close>: a grid of empty cells.\<close>

definition add_table :: "nat \<Rightarrow> nat \<Rightarrow> table" where
  "add_table rows cols =
     \<lparr>tbl_grid = Some (replicate cols Auto), tr_lst = replicate rows (replicate cols empty_cell)\<rparr>"

text \<open>
  The capture loop sits inside one \<open>try\<close>: the first width that cannot be read ends the
  loop and leaves \<open>col_widths = None\<close>.
\<close>

fun capture_widths :: "col_width list \<Rightarrow> col_width list option" where
  "capture_widths [] = Some []"
| "capture_widths (w # ws) =
     (case w of Unreadable \<Rightarrow> None
      | _ \<Rightarrow> (case capture_widths ws of None \<Rightarrow> None | Some vs \<Rightarrow> Some (w # vs)))"

text \<open>
  Assigning a width is accepted or raises. Which explicit widths the library accepts is a
  parameter \<open>settable\<close> of the model; a width a fresh table had is accepted again.
\<close>

definition accepted :: "(int \<Rightarrow> bool) \<Rightarrow> col_width \<Rightarrow> bool" where
  "accepted settable w = (case w of Unreadable \<Rightarrow> False | Auto \<Rightarrow> True | Emu n \<Rightarrow> settable n)"

text \<open>
  The restore loop has its \<open>try\<close> inside: column \<open>c\<close> takes \<open>col_widths[c]\<close> when the
  assignment is accepted and keeps its width otherwise. \<open>if col_widths:\<close> skips the loop
  for \<open>None\<close> and for the empty list.
\<close>

definition restore_widths ::
  "(int \<Rightarrow> bool) \<Rightarrow> col_width list option \<Rightarrow> nat \<Rightarrow> col_width list \<Rightarrow> col_width list" where
  "restore_widths settable col_widths cols g =
     (case col_widths of
        None \<Rightarrow> g
      | Some ws \<Rightarrow>
          if ws = [] then g
          else map (\<lambda>c. if accepted settable (ws ! c) then ws ! c else g ! c) [0..<cols])"

section \<open>Table Rebuilder\<close>

text \<open>
  \<open>_append_row_by_rebuilding(slide, table_shape, values_by_header)\<close>. The result is the
  slide after the call; the new shape is its last shape and \<open>new_shape.table\<close>, which the
  source returns, is the table of that shape.
\<close>

definition append_row_by_rebuilding ::
  "(int \<Rightarrow> bool) \<Rightarrow> slide \<Rightarrow> shape_ref \<Rightarrow> (string \<rightharpoonup> string) \<Rightarrow> error + slide" where
  "append_row_by_rebuilding settable sl table_shape values_by_header =
     bind (deref sl table_shape) (\<lambda>sh.
     bind (shape_table sh) (\<lambda>(geo, t).
     let rows = num_rows t in
     bind (num_cols t) (\<lambda>cols.
     bind (mapM (\<lambda>r. mapM (\<lambda>c. bind (cell_at t r c) (\<lambda>x. Inr (cell_text x))) [0..<cols])
                [0..<rows]) (\<lambda>grid.
     bind (header_texts t cols) (\<lambda>hdrs.
     let new_row = map (\<lambda>h. case values_by_header h of Some v \<Rightarrow> v | None \<Rightarrow> []) hdrs;
         grid' = grid @ [new_row];
         col_widths = (case tbl_grid t of None \<Rightarrow> None | Some g \<Rightarrow> capture_widths g)
     in (case table_shape of
           Detached d \<Rightarrow> Inl AttributeError
         | Attached i \<Rightarrow>
             let new_table = add_table (rows + 1) cols;
                 widths = (case tbl_grid new_table of None \<Rightarrow> None
                           | Some g \<Rightarrow> Some (restore_widths settable col_widths cols g));
                 cells = map (\<lambda>r. map (\<lambda>c. set_cell_style (r = 0)
                                  (set_text (grid' ! r ! c) (tr_lst new_table ! r ! c)))
                                [0..<cols]) [0..<rows + 1]
             in Inr (sl\<lparr>shapes := remove_nth i (shapes sl)
                                @ [GraphicFrame geo \<lparr>tbl_grid = widths, tr_lst = cells\<rparr>]\<rparr>)))))))"

section \<open>Pagination Controller\<close>

definition add_slide :: "layout \<Rightarrow> slide" where
  "add_slide l = (case l of Layout n phs \<Rightarrow> \<lparr>slide_layout = l, shapes = map Shape phs\<rparr>)"

text \<open>
  \<open>_start_new_slide_with_table(pres, src_slide, src_shape)\<close>. The result is the
  presentation after the call: the new slide is its last slide and the new shape is the
  last shape of that slide.
\<close>

definition start_new_slide_with_table ::
  "(int \<Rightarrow> bool) \<Rightarrow> slide list \<Rightarrow> nat \<Rightarrow> shape_ref \<Rightarrow> error + slide list" where
  "start_new_slide_with_table settable pres src_slide src_shape =
     bind (nth_e pres src_slide) (\<lambda>src.
     let new_slide = add_slide (slide_layout src) in
     bind (deref src src_shape) (\<lambda>sh.
     bind (shape_table sh) (\<lambda>(geo, src_table).
     bind (num_cols src_table) (\<lambda>cols.
     bind (header_texts src_table cols) (\<lambda>hdrs.
     let col_widths = (case tbl_grid src_table of None \<Rightarrow> None | Some g \<Rightarrow> capture_widths g);
         new_table = add_table 1 cols;
         cells = map (\<lambda>r. map (\<lambda>c. set_cell_style True (set_text (hdrs ! c) (tr_lst new_table ! r ! c)))
                            [0..<cols]) [0..<1];
         widths = (case tbl_grid new_table of None \<Rightarrow> None
                   | Some g \<Rightarrow> Some (restore_widths settable col_widths cols g))
     in Inr (pres @ [new_slide\<lparr>shapes := shapes new_slide
                       @ [GraphicFrame geo \<lparr>tbl_grid = widths, tr_lst = cells\<rparr>]\<rparr>]))))))"

section \<open>Row Synchronizer\<close>

text \<open>A source record: the four fields of a row of the dataset, as strings.\<close>

record source_record =
  r_tool :: string
  r_use_case :: string
  r_requestor :: string
  r_status :: string

text \<open>\<open>col_indices[k]\<close>\<close>

definition getitem :: "(string \<rightharpoonup> nat) \<Rightarrow> string \<Rightarrow> error + nat" where
  "getitem d k = (case d k of None \<Rightarrow> Inl KeyError | Some i \<Rightarrow> Inr i)"

text \<open>
  One mapped cell of the matched row: overwritten, re-styled and counted when its trimmed
  text differs from the new value. The row is the list of cells \<open>table.cell(row_idx, _)\<close>.
\<close>

definition update_cell :: "string \<Rightarrow> nat \<Rightarrow> cell list \<times> nat \<Rightarrow> error + cell list \<times> nat" where
  "update_cell new j rn =
     (case rn of (row, n) \<Rightarrow>
        bind (nth_e row j) (\<lambda>c.
          if strip (cell_text c) \<noteq> new
          then Inr (row[j := set_cell_style False (set_text new c)], n + 1)
          else Inr (row, n)))"

definition update_row ::
  "source_record \<Rightarrow> (string \<rightharpoonup> nat) \<Rightarrow> nat \<Rightarrow> cell list \<Rightarrow> error + cell list \<times> nat" where
  "update_row excel_row col_indices ai_tool_col_idx row =
     bind (getitem col_indices ''Tool Description'') (\<lambda>di.
     bind (update_cell (strip (r_use_case excel_row)) di (row, 0)) (\<lambda>rn1.
     bind (getitem col_indices ''Requestor'') (\<lambda>ri.
     bind (update_cell (strip (r_requestor excel_row)) ri rn1) (\<lambda>rn2.
     bind (getitem col_indices ''Current State'') (\<lambda>si.
     bind (update_cell (strip (r_status excel_row)) si rn2) (\<lambda>rn3.
     case rn3 of (row3, n) \<Rightarrow>
       bind (nth_e row3 ai_tool_col_idx) (\<lambda>tool_cell.
         Inr (row3[ai_tool_col_idx := set_cell_style False tool_cell], n))))))))"

text \<open>
  The loop over the body rows of one table. The result is the rows after the loop, the
  number of cells overwritten and \<open>tool_found\<close>. The loop ends at the first matching row.
\<close>

fun scan_rows ::
  "source_record \<Rightarrow> string \<Rightarrow> (string \<rightharpoonup> nat) \<Rightarrow> nat \<Rightarrow> cell list list
     \<Rightarrow> error + cell list list \<times> nat \<times> bool" where
  "scan_rows excel_row tool_name col_indices ai [] = Inr ([], 0, False)"
| "scan_rows excel_row tool_name col_indices ai (row # rest) =
     bind (nth_e row ai) (\<lambda>c.
       if lower (strip (cell_text c)) = lower tool_name
       then bind (update_row excel_row col_indices ai row) (\<lambda>(row', n). Inr (row' # rest, n, True))
       else bind (scan_rows excel_row tool_name col_indices ai rest)
              (\<lambda>(rest', n, found). Inr (row # rest', n, found)))"

text \<open>\<open>for row_idx in range(1, len(table.rows))\<close>: the rows after the header row.\<close>

definition scan_table ::
  "source_record \<Rightarrow> string \<Rightarrow> (string \<rightharpoonup> nat) \<Rightarrow> nat \<Rightarrow> table \<Rightarrow> error + table \<times> nat \<times> bool" where
  "scan_table excel_row tool_name col_indices ai t =
     (case tr_lst t of
        [] \<Rightarrow> Inr (t, 0, False)
      | hdr # body \<Rightarrow>
          bind (scan_rows excel_row tool_name col_indices ai body)
            (\<lambda>(body', n, found). Inr (t\<lparr>tr_lst := hdr # body'\<rparr>, n, found)))"

section \<open>Sync Orchestrator: the search\<close>

text \<open>
  The Target Table Reference. \<open>target_table\<close> is the position, on the target slide, of the
  shape whose table is cached; \<open>target_slide\<close> is the position of the cached slide, which
  is also the value of \<open>target_slide_idx\<close>.
\<close>

record target =
  target_table :: nat
  target_shape :: shape_ref
  target_slide :: nat

text \<open>Header styling of a newly discovered target: every cell of row 0, column by column.\<close>

definition style_header :: "table \<Rightarrow> error + table" where
  "style_header t =
     bind (num_cols t) (\<lambda>cols.
     bind (mapM (\<lambda>c. bind (cell_at t 0 c) (\<lambda>x. Inr (set_cell_style True x))) [0..<cols]) (\<lambda>styled.
     Inr (t\<lparr>tr_lst := (tr_lst t)[0 := styled @ drop cols (tr_lst t ! 0)]\<rparr>)))"

text \<open>
  The loop over the shapes of one slide; \<open>j\<close> is the position of the first shape of the
  list on its slide. The result is the shapes after the loop, the target reference, the
  number of cells overwritten and \<open>tool_found\<close>.
\<close>

fun scan_shapes ::
  "source_record \<Rightarrow> string \<Rightarrow> nat \<Rightarrow> nat \<Rightarrow> shape list \<Rightarrow> target option
     \<Rightarrow> error + shape list \<times> target option \<times> nat \<times> bool" where
  "scan_shapes excel_row tool_name slide_idx j [] tg = Inr ([], tg, 0, False)"
| "scan_shapes excel_row tool_name slide_idx j (Shape nm # rest) tg =
     bind (scan_shapes excel_row tool_name slide_idx (Suc j) rest tg)
       (\<lambda>(rest', tg', n, found). Inr (Shape nm # rest', tg', n, found))"
| "scan_shapes excel_row tool_name slide_idx j (GraphicFrame geo t # rest) tg =
     bind (table_headers_and_indices t) (\<lambda>hi.
       case hi of
         None \<Rightarrow>
           bind (scan_shapes excel_row tool_name slide_idx (Suc j) rest tg)
             (\<lambda>(rest', tg', n, found). Inr (GraphicFrame geo t # rest', tg', n, found))
       | Some (headers, col_indices) \<Rightarrow>
           bind (if tg = None
                 then bind (style_header t) (\<lambda>t'.
                        Inr (t', Some \<lparr>target_table = j, target_shape = Attached j,
                                       target_slide = slide_idx\<rparr>))
                 else Inr (t, tg)) (\<lambda>(t1, tg1).
           case col_indices ''AI Tool'' of
             None \<Rightarrow>
               bind (scan_shapes excel_row tool_name slide_idx (Suc j) rest tg1)
                 (\<lambda>(rest', tg', n, found). Inr (GraphicFrame geo t1 # rest', tg', n, found))
           | Some ai \<Rightarrow>
               bind (scan_table excel_row tool_name col_indices ai t1) (\<lambda>(t2, n, found).
                 if found then Inr (GraphicFrame geo t2 # rest, tg1, n, True)
                 else bind (scan_shapes excel_row tool_name slide_idx (Suc j) rest tg1)
                        (\<lambda>(rest', tg', n', found'). Inr (GraphicFrame geo t2 # rest', tg', n + n', found')))))"

text \<open>The loop over the slides, from slide \<open>slide_idx\<close> on.\<close>

fun scan_slides ::
  "source_record \<Rightarrow> string \<Rightarrow> nat \<Rightarrow> slide list \<Rightarrow> target option
     \<Rightarrow> error + slide list \<times> target option \<times> nat \<times> bool" where
  "scan_slides excel_row tool_name slide_idx [] tg = Inr ([], tg, 0, False)"
| "scan_slides excel_row tool_name slide_idx (sl # rest) tg =
     bind (scan_shapes excel_row tool_name slide_idx 0 (shapes sl) tg) (\<lambda>(shs, tg1, n, found).
       if found then Inr (sl\<lparr>shapes := shs\<rparr> # rest, tg1, n, True)
       else bind (scan_slides excel_row tool_name (Suc slide_idx) rest tg1)
              (\<lambda>(rest', tg', n', found'). Inr (sl\<lparr>shapes := shs\<rparr> # rest', tg', n + n', found')))"

section \<open>Sync Orchestrator: appending a missing record\<close>

text \<open>The variables of the run that outlive one record.\<close>

record state =
  presentation :: "slide list"
  tgt :: "target option"
  updates_made :: nat
  rows_added :: nat
  not_found_before_adding :: nat

text \<open>The table a position on a slide of the presentation refers to.\<close>

definition table_on :: "slide list \<Rightarrow> nat \<Rightarrow> nat \<Rightarrow> error + table" where
  "table_on pres si j =
     bind (nth_e pres si) (\<lambda>sl. bind (nth_e (shapes sl) j) (\<lambda>sh.
     bind (shape_table sh) (\<lambda>(geo, t). Inr t)))"

text \<open>\<open>_ensure_capacity_or_paginate\<close>\<close>

definition ensure_capacity_or_paginate :: "(int \<Rightarrow> bool) \<Rightarrow> state \<Rightarrow> error + state" where
  "ensure_capacity_or_paginate settable st =
     (case tgt st of
        None \<Rightarrow> Inr st
      | Some tg \<Rightarrow>
          bind (table_on (presentation st) (target_slide tg) (target_table tg)) (\<lambda>t.
          let body_rows = int (num_rows t) - 1 in
          if body_rows \<ge> MAX_BODY_ROWS
          then bind (start_new_slide_with_table settable (presentation st) (target_slide tg)
                       (target_shape tg)) (\<lambda>pres'.
               bind (nth_e pres' (length pres' - 1)) (\<lambda>new_slide.
               let j = length (shapes new_slide) - 1
               in Inr (st\<lparr>presentation := pres',
                          tgt := Some \<lparr>target_table = j, target_shape = Attached j,
                                       target_slide = length pres' - 1\<rparr>\<rparr>)))
          else Inr st))"

text \<open>\<open>col_values_from_excel\<close>\<close>

definition col_values_from_excel :: "source_record \<Rightarrow> string \<Rightarrow> (string \<rightharpoonup> string)" where
  "col_values_from_excel excel_row tool_name =
     [''AI Tool'' \<mapsto> tool_name,
      ''Tool Description'' \<mapsto> strip (r_use_case excel_row),
      ''Requestor'' \<mapsto> strip (r_requestor excel_row),
      ''Current State'' \<mapsto> strip (r_status excel_row)]"

text \<open>
  \<open>values_by_header\<close>: every header of the target table, with the record's value for the
  four known columns and the empty string for the others.
\<close>

definition values_by_header :: "string list \<Rightarrow> (string \<rightharpoonup> string) \<Rightarrow> (string \<rightharpoonup> string)" where
  "values_by_header tgt_headers vals =
     (\<lambda>h. if h \<in> set tgt_headers
           then Some (case vals h of Some v \<Rightarrow> v | None \<Rightarrow> [])
           else None)"

text \<open>The first shape of a slide that holds a qualifying table, from position \<open>j\<close> on.\<close>

fun refreshed_shape :: "nat \<Rightarrow> shape list \<Rightarrow> error + nat option" where
  "refreshed_shape j [] = Inr None"
| "refreshed_shape j (Shape nm # rest) = refreshed_shape (Suc j) rest"
| "refreshed_shape j (GraphicFrame geo t # rest) =
     bind (table_headers_and_indices t) (\<lambda>hi.
       case hi of None \<Rightarrow> refreshed_shape (Suc j) rest | Some x \<Rightarrow> Inr (Some j))"

text \<open>
  The body of \<open>if add_missing_tools and (target_table is not None) and ...\<close>, for the
  target \<open>tg\<close>. A target shape that is not found again stays the removed object.
\<close>

definition append_missing ::
  "(int \<Rightarrow> bool) \<Rightarrow> source_record \<Rightarrow> string \<Rightarrow> state \<Rightarrow> error + state" where
  "append_missing settable excel_row tool_name st0 =
     bind (ensure_capacity_or_paginate settable st0) (\<lambda>st.
     case tgt st of
       None \<Rightarrow> Inr st
     | Some tg \<Rightarrow>
         bind (table_on (presentation st) (target_slide tg) (target_table tg)) (\<lambda>t.
         bind (num_cols t) (\<lambda>cols.
         bind (header_texts t cols) (\<lambda>tgt_headers.
         let vals = values_by_header tgt_headers (col_values_from_excel excel_row tool_name) in
         bind (nth_e (presentation st) (target_slide tg)) (\<lambda>sl.
         bind (deref sl (target_shape tg)) (\<lambda>old_shape.
         bind (append_row_by_rebuilding settable sl (target_shape tg) vals) (\<lambda>sl'.
         bind (refreshed_shape 0 (shapes sl')) (\<lambda>refreshed.
         Inr (st\<lparr>presentation := (presentation st)[target_slide tg := sl'],
                 tgt := Some \<lparr>target_table = length (shapes sl') - 1,
                              target_shape = (case refreshed of Some k \<Rightarrow> Attached k
                                              | None \<Rightarrow> Detached old_shape),
                              target_slide = target_slide tg\<rparr>,
                 rows_added := rows_added st + 1,
                 updates_made := updates_made st + 4\<rparr>)))))))))"

text \<open>One iteration of \<open>for idx, excel_row in excel_df.iterrows()\<close>.\<close>

definition process_record ::
  "(int \<Rightarrow> bool) \<Rightarrow> bool \<Rightarrow> state \<Rightarrow> source_record \<Rightarrow> error + state" where
  "process_record settable add_missing_tools st excel_row =
     (let tool_name = strip (r_tool excel_row) in
      if tool_name = [] then Inr st
      else bind (scan_slides excel_row tool_name 0 (presentation st) (tgt st))
             (\<lambda>(pres', tg', n, tool_found).
        let st1 = st\<lparr>presentation := pres', tgt := tg', updates_made := updates_made st + n\<rparr> in
        if \<not> tool_found
        then let st2 = st1\<lparr>not_found_before_adding := not_found_before_adding st1 + 1\<rparr> in
             if add_missing_tools \<and> tgt st2 \<noteq> None
             then append_missing settable excel_row tool_name st2
             else Inr st2
        else Inr st1))"

fun process_records ::
  "(int \<Rightarrow> bool) \<Rightarrow> bool \<Rightarrow> state \<Rightarrow> source_record list \<Rightarrow> error + state" where
  "process_records settable add_missing_tools st [] = Inr st"
| "process_records settable add_missing_tools st (r # rs) =
     bind (process_record settable add_missing_tools st r)
       (\<lambda>st'. process_records settable add_missing_tools st' rs)"

section \<open>Sync Orchestrator: the run\<close>

text \<open>
  The dataset as the loop sees it: the column names of the data frame and its rows.
  The outcome of a run: the presentation in memory, the documents written to
  \<open>ppt_file\<close> in order, and the numbers of the summary.
\<close>

record data_frame =
  df_columns :: "string list"
  df_rows :: "source_record list"

record outcome =
  in_memory :: "slide list"
  saved :: "slide list list"
  total_processed :: nat
  out_updates_made :: nat
  out_rows_added :: nat
  out_not_found :: nat

definition initial_state :: "slide list \<Rightarrow> state" where
  "initial_state pres =
     \<lparr>presentation = pres, tgt = None, updates_made = 0, rows_added = 0,
      not_found_before_adding = 0\<rparr>"

definition rename_columns :: "string list \<Rightarrow> string list" where
  "rename_columns cols =
     map (\<lambda>c. if c = ''Service'' @ [CHR 0x0A] @ '' Use Case''
               then ''Service'' @ [CHR 0x0A] @ ''Use Case'' else c) cols"

definition missing_cols :: "string list \<Rightarrow> string list" where
  "missing_cols cols =
     filter (\<lambda>col. col \<notin> set (rename_columns cols))
       [''Tool'', ''Service'' @ [CHR 0x0A] @ ''Use Case'', ''Requestor'', ''Status'']"

text \<open>
  \<open>sync_excel_to_ppt\<close> from the column check on. \<open>Inr None\<close> is the early return on missing
  columns: nothing is opened, counted or saved.
\<close>

definition sync_excel_to_ppt ::
  "(int \<Rightarrow> bool) \<Rightarrow> data_frame \<Rightarrow> slide list \<Rightarrow> bool \<Rightarrow> error + outcome option" where
  "sync_excel_to_ppt settable excel_df ppt add_missing_tools =
     (if missing_cols (df_columns excel_df) \<noteq> [] then Inr None
      else bind (process_records settable add_missing_tools (initial_state ppt) (df_rows excel_df))
             (\<lambda>st. Inr (Some
               \<lparr>in_memory = presentation st,
                saved = (if updates_made st > 0 then [presentation st] else []),
                total_processed = length (df_rows excel_df),
                out_updates_made = updates_made st,
                out_rows_added = rows_added st,
                out_not_found = not_found_before_adding st\<rparr>)))"

section \<open>The grid invariant of the data model\<close>

text \<open>
  A table of the data model is a grid of rows by columns: every row has one cell for each
  column of the grid. A table whose grid cannot be read is not constrained.
\<close>

definition rectangular :: "table \<Rightarrow> bool" where
  "rectangular t =
     (case tbl_grid t of
        None \<Rightarrow> True
      | Some g \<Rightarrow> list_all (\<lambda>row. length row = length g) (tr_lst t))"

section \<open>Closed forms of the rebuilt and of the fresh table\<close>

text \<open>A new cell after its text has been written and its style applied.\<close>

definition styled :: "bool \<Rightarrow> string \<Rightarrow> cell" where
  "styled is_header s = set_cell_style is_header (set_text s empty_cell)"

text \<open>
  The column widths of a new table after the capture and the restore loops have run for
  the source grid \<open>g\<close>.
\<close>

definition restored_grid :: "(int \<Rightarrow> bool) \<Rightarrow> col_width list \<Rightarrow> col_width list" where
  "restored_grid settable g =
     (if Unreadable \<in> set g then replicate (length g) Auto
      else map (\<lambda>w. if accepted settable w then w else Auto) g)"



text \<open>The header-only table \<open>_start_new_slide_with_table\<close> creates from a grid table.\<close>

definition fresh_table :: "(int \<Rightarrow> bool) \<Rightarrow> table \<Rightarrow> table" where
  "fresh_table settable t =
     \<lparr>tbl_grid = map_option (restored_grid settable) (tbl_grid t),
      tr_lst = [map (\<lambda>c. styled True (strip (cell_text c))) (hd (tr_lst t))]\<rparr>"

section \<open>Closed form of the Header Matcher\<close>

text \<open>The first position of an element of a list.\<close>

definition first_index :: "'a list \<Rightarrow> 'a \<Rightarrow> nat" where
  "first_index xs x = length (takeWhile (\<lambda>y. y \<noteq> x) xs)"

text \<open>The trimmed texts of the header row.\<close>

definition header_names :: "table \<Rightarrow> string list" where
  "header_names t = (case tr_lst t of [] \<Rightarrow> [] | hdr # body \<Rightarrow> map (\<lambda>c. strip (cell_text c)) hdr)"

text \<open>
  A table qualifies when its grid can be read, it has a row and a column, and its header
  row holds the four required names.
\<close>

definition qualifies :: "table \<Rightarrow> bool" where
  "qualifies t =
     (case tbl_grid t of
        None \<Rightarrow> False
      | Some g \<Rightarrow> g \<noteq> [] \<and> tr_lst t \<noteq> [] \<and>
                  list_all (\<lambda>col. col \<in> set (header_names t)) required_ppt_cols)"

definition indices_of :: "string list \<Rightarrow> (string \<rightharpoonup> nat)" where
  "indices_of hdrs = map_of (map (\<lambda>col. (col, first_index hdrs col)) required_ppt_cols)"

text \<open>Documents all of whose tables are grids of the data model.\<close>

definition wf_shape :: "shape \<Rightarrow> bool" where
  "wf_shape sh = (case sh of Shape n \<Rightarrow> True | GraphicFrame geo t \<Rightarrow> rectangular t)"

definition wf_doc :: "slide list \<Rightarrow> bool" where
  "wf_doc pres = list_all (\<lambda>sl. list_all wf_shape (shapes sl)) pres"


section \<open>The search on a document of grid tables\<close>

text \<open>
  On grid tables no cell access of the search raises. The functions of this section are
  the loops of the search without the exceptions; the lemmas \<open>scan_rows_grid\<close>,
  \<open>scan_shapes_grid\<close> and \<open>scan_slides_grid\<close> prove that the loops compute them.
\<close>

definition matches :: "string \<Rightarrow> nat \<Rightarrow> cell list \<Rightarrow> bool" where
  "matches tool_name ai row = (lower (strip (cell_text (row ! ai))) = lower tool_name)"

definition overwrite :: "string \<Rightarrow> cell \<Rightarrow> cell" where
  "overwrite new c = (if strip (cell_text c) \<noteq> new then set_cell_style False (set_text new c) else c)"

definition changed :: "string \<Rightarrow> cell \<Rightarrow> nat" where
  "changed new c = (if strip (cell_text c) \<noteq> new then 1 else 0)"

text \<open>The columns of the key, the description, the requestor and the status.\<close>

type_synonym positions = "nat \<times> nat \<times> nat \<times> nat"

definition positions_of :: "string list \<Rightarrow> positions" where
  "positions_of hdrs =
     (first_index hdrs ''AI Tool'', first_index hdrs ''Tool Description'',
      first_index hdrs ''Requestor'', first_index hdrs ''Current State'')"

definition updated_row :: "source_record \<Rightarrow> positions \<Rightarrow> cell list \<Rightarrow> cell list \<times> nat" where
  "updated_row excel_row p row =
     (case p of (ai, di, ri, si) \<Rightarrow>
        let new_desc = strip (r_use_case excel_row);
            n1 = changed new_desc (row ! di);
            row1 = row[di := overwrite new_desc (row ! di)];
            new_requester = strip (r_requestor excel_row);
            n2 = n1 + changed new_requester (row1 ! ri);
            row2 = row1[ri := overwrite new_requester (row1 ! ri)];
            new_status = strip (r_status excel_row);
            n3 = n2 + changed new_status (row2 ! si);
            row3 = row2[si := overwrite new_status (row2 ! si)]
        in (row3[ai := set_cell_style False (row3 ! ai)], n3))"

fun sync_rows ::
  "source_record \<Rightarrow> string \<Rightarrow> positions \<Rightarrow> cell list list \<Rightarrow> cell list list \<times> nat \<times> bool" where
  "sync_rows excel_row tool_name p [] = ([], 0, False)"
| "sync_rows excel_row tool_name p (row # rest) =
     (if matches tool_name (fst p) row
      then (fst (updated_row excel_row p row) # rest, snd (updated_row excel_row p row), True)
      else (case sync_rows excel_row tool_name p rest of
              (rest', n, found) \<Rightarrow> (row # rest', n, found)))"

definition sync_table :: "source_record \<Rightarrow> string \<Rightarrow> table \<Rightarrow> table \<times> nat \<times> bool" where
  "sync_table excel_row tool_name t =
     (case tr_lst t of
        [] \<Rightarrow> (t, 0, False)
      | hdr # body \<Rightarrow>
          (case sync_rows excel_row tool_name (positions_of (header_names t)) body of
             (body', n, found) \<Rightarrow> (t\<lparr>tr_lst := hdr # body'\<rparr>, n, found)))"

definition styled_header :: "table \<Rightarrow> table" where
  "styled_header t =
     (case tr_lst t of [] \<Rightarrow> t | hdr # body \<Rightarrow> t\<lparr>tr_lst := map (set_cell_style True) hdr # body\<rparr>)"

fun sync_shapes ::
  "source_record \<Rightarrow> string \<Rightarrow> nat \<Rightarrow> nat \<Rightarrow> shape list \<Rightarrow> target option
     \<Rightarrow> shape list \<times> target option \<times> nat \<times> bool" where
  "sync_shapes excel_row tool_name slide_idx j [] tg = ([], tg, 0, False)"
| "sync_shapes excel_row tool_name slide_idx j (Shape nm # rest) tg =
     (case sync_shapes excel_row tool_name slide_idx (Suc j) rest tg of
        (rest', tg', n, found) \<Rightarrow> (Shape nm # rest', tg', n, found))"
| "sync_shapes excel_row tool_name slide_idx j (GraphicFrame geo t # rest) tg =
     (if \<not> qualifies t
      then (case sync_shapes excel_row tool_name slide_idx (Suc j) rest tg of
              (rest', tg', n, found) \<Rightarrow> (GraphicFrame geo t # rest', tg', n, found))
      else let t1 = (if tg = None then styled_header t else t);
               tg1 = (if tg = None
                      then Some \<lparr>target_table = j, target_shape = Attached j, target_slide = slide_idx\<rparr>
                      else tg)
           in (case sync_table excel_row tool_name t1 of
                 (t2, n, found) \<Rightarrow>
                   if found then (GraphicFrame geo t2 # rest, tg1, n, True)
                   else (case sync_shapes excel_row tool_name slide_idx (Suc j) rest tg1 of
                           (rest', tg', n', found') \<Rightarrow> (GraphicFrame geo t2 # rest', tg', n + n', found'))))"

fun sync_slides ::
  "source_record \<Rightarrow> string \<Rightarrow> nat \<Rightarrow> slide list \<Rightarrow> target option
     \<Rightarrow> slide list \<times> target option \<times> nat \<times> bool" where
  "sync_slides excel_row tool_name slide_idx [] tg = ([], tg, 0, False)"
| "sync_slides excel_row tool_name slide_idx (sl # rest) tg =
     (case sync_shapes excel_row tool_name slide_idx 0 (shapes sl) tg of
        (shs, tg1, n, found) \<Rightarrow>
          if found then (sl\<lparr>shapes := shs\<rparr> # rest, tg1, n, True)
          else (case sync_slides excel_row tool_name (Suc slide_idx) rest tg1 of
                  (rest', tg', n', found') \<Rightarrow> (sl\<lparr>shapes := shs\<rparr> # rest', tg', n + n', found')))"

section \<open>Example documents and datasets\<close>

definition plain :: "string \<Rightarrow> cell" where
  "plain s = \<lparr>cell_text = s, cell_font = None\<rparr>"

definition example_geometry :: geometry where
  "example_geometry = \<lparr>left = 100, top = 200, width = 4000, height = 3000\<rparr>"

definition example_header :: "cell list" where
  "example_header =
     [plain ''AI Tool'', plain ''Tool Description'', plain ''Requestor'', plain ''Current State'']"

definition example_table :: table where
  "example_table = \<lparr>tbl_grid = Some [Emu 1000, Emu 1500, Emu 700, Emu 800], tr_lst = [example_header]\<rparr>"

definition example_ppt :: "slide list" where
  "example_ppt =
     [\<lparr>slide_layout = Layout ''Title and Content'' [''Title 1''],
       shapes = [Shape ''Title 1'', GraphicFrame example_geometry example_table]\<rparr>]"

definition example_columns :: "string list" where
  "example_columns = [''Tool'', ''Service'' @ [CHR 0x0A] @ ''Use Case'', ''Requestor'', ''Status'']"

definition example_record :: source_record where
  "example_record =
     \<lparr>r_tool = ''ToolX'', r_use_case = ''Desc'', r_requestor = ''Bob'', r_status = ''Approved''\<rparr>"

definition blank_record :: source_record where
  "blank_record =
     \<lparr>r_tool = ''  '', r_use_case = ''Orphan'', r_requestor = ''Eve'', r_status = ''Open''\<rparr>"

definition alpha_record :: source_record where
  "alpha_record =
     \<lparr>r_tool = '' alpha '', r_use_case = ''New'', r_requestor = ''Bob'', r_status = ''Approved''\<rparr>"

definition alpha_row :: "cell list" where
  "alpha_row = [plain ''Alpha'', plain ''Old'', plain ''Bob'', plain ''Pending'']"

definition example_indices :: "string \<rightharpoonup> nat" where
  "example_indices =
     [''AI Tool'' \<mapsto> 0, ''Tool Description'' \<mapsto> 1, ''Requestor'' \<mapsto> 2, ''Current State'' \<mapsto> 3]"


definition example_ppt_after :: "slide list" where
  "example_ppt_after =
     [\<lparr>slide_layout = Layout ''Title and Content'' [''Title 1''],
       shapes = [Shape ''Title 1'',
                 GraphicFrame example_geometry
                   \<lparr>tbl_grid = Some [Emu 1000, Emu 1500, Emu 700, Emu 800],
                    tr_lst = [map (set_cell_style True) example_header,
                              map (\<lambda>s. set_cell_style False (plain s))
                                [''ToolX'', ''Desc'', ''Bob'', ''Approved'']]\<rparr>]\<rparr>]"

definition example_outcome :: outcome where
  "example_outcome =
     \<lparr>in_memory = example_ppt_after, saved = [example_ppt_after], total_processed = 1,
      out_updates_made = 4, out_rows_added = 1, out_not_found = 1\<rparr>"












section \<open>Basic lemmas\<close>

lemma bind_Inr [simp]: "bind (Inr x) f = f x"
  by (simp add: bind_def)

lemma bind_Inl [simp]: "bind (Inl e) f = Inl e"
  by (simp add: bind_def)

lemma bind_eq_Inr: "bind m f = Inr y \<longleftrightarrow> (\<exists>x. m = Inr x \<and> f x = Inr y)"
  by (cases m) auto

lemma mapM_Inr: "(\<And>x. x \<in> set xs \<Longrightarrow> f x = Inr (g x)) \<Longrightarrow> mapM f xs = Inr (map g xs)"
  by (induction xs) auto

lemma mapM_eq_Inr_length: "mapM f xs = Inr ys \<Longrightarrow> length ys = length xs"
  by (induction xs arbitrary: ys) (auto simp: bind_eq_Inr)

lemma nth_e_Inr [simp]: "i < length xs \<Longrightarrow> nth_e xs i = Inr (xs ! i)"
  by (simp add: nth_e_def)

lemma nth_e_eq_Inr: "nth_e xs i = Inr x \<longleftrightarrow> i < length xs \<and> xs ! i = x"
  by (auto simp: nth_e_def)

subsection \<open>Trimming is idempotent\<close>

lemma strip_fixed:
  assumes "t = [] \<or> (\<not> isspace (hd t) \<and> \<not> isspace (last t))"
  shows "strip t = t"
proof (cases t)
  case Nil
  then show ?thesis by (simp add: strip_def)
next
  case (Cons a as)
  with assms have h: "\<not> isspace a" and l: "\<not> isspace (last t)" by auto
  from h Cons have 1: "dropWhile isspace t = t" by simp
  from Cons have "rev t \<noteq> []" by simp
  moreover from l have "\<not> isspace (hd (rev t))" by (simp add: hd_rev)
  ultimately have "dropWhile isspace (rev t) = rev t" by (cases "rev t") auto
  with 1 show ?thesis by (simp add: strip_def)
qed

lemma strip_clean: "strip s = [] \<or> (\<not> isspace (hd (strip s)) \<and> \<not> isspace (last (strip s)))"
proof -
  define u where "u = dropWhile isspace s"
  define v where "v = dropWhile isspace (rev u)"
  have s: "strip s = rev v" by (simp add: strip_def u_def v_def)
  show ?thesis
  proof (cases "v = []")
    case True
    with s show ?thesis by simp
  next
    case False
    then have hv: "\<not> isspace (hd v)" unfolding v_def by (metis hd_dropWhile)
    have "rev u = takeWhile isspace (rev u) @ v" by (simp add: v_def)
    with False have "last (rev u) = last v" by (metis last_appendR)
    moreover from False have "u \<noteq> []" by (auto simp: v_def)
    ultimately have "last v = hd u" by (simp add: last_rev)
    moreover from \<open>u \<noteq> []\<close> have "\<not> isspace (hd u)" unfolding u_def by (metis hd_dropWhile)
    ultimately have "\<not> isspace (last v)" by simp
    with hv False s show ?thesis by (simp add: hd_rev last_rev)
  qed
qed

lemma strip_strip [simp]: "strip (strip s) = strip s"
  by (rule strip_fixed) (rule strip_clean)

section \<open>Empty keys (C7)\<close>

lemma process_records_append:
  "process_records settable add st (xs @ ys) =
     bind (process_records settable add st xs) (\<lambda>st'. process_records settable add st' ys)"
proof (induction xs arbitrary: st)
  case Nil
  then show ?case by simp
next
  case (Cons x xs)
  show ?case
    by (cases "process_record settable add st x") (simp_all add: Cons.IH)
qed

lemma process_record_blank:
  "strip (r_tool r) = [] \<Longrightarrow> process_record settable add st r = Inr st"
  by (simp add: process_record_def)

text \<open>
  C7, as stated: a record whose key is empty after trimming changes no counter and is not
  counted as processed. The summary's number of processed tools is the length of the
  dataset, so a dataset of one such record reports one processed tool.
\<close>

theorem C7_blank_counted_as_processed:
  "strip (r_tool blank_record) = [] \<and>
   sync_excel_to_ppt (\<lambda>w. True) \<lparr>df_columns = example_columns, df_rows = [blank_record]\<rparr> [] True =
     Inr (Some \<lparr>in_memory = [], saved = [], total_processed = 1, out_updates_made = 0,
                out_rows_added = 0, out_not_found = 0\<rparr>)"
  by code_simp

text \<open>
  C7, amended: a record whose key is empty after trimming is skipped: processing it leaves
  the presentation, the target reference and the counters of updates, added rows and
  records not found as they are, so that a run with the record gives the outcome of the
  run without it, except that the summary's number of processed tools, which is the length
  of the dataset, counts the record.
\<close>

theorem C7_empty_key_skipped:
  assumes "strip (r_tool r) = []"
  shows "process_record settable add st r = Inr st \<and>
         sync_excel_to_ppt settable \<lparr>df_columns = cols, df_rows = pre @ r # post\<rparr> ppt add =
           map_sum id (map_option (\<lambda>out. out\<lparr>total_processed := Suc (total_processed out)\<rparr>))
             (sync_excel_to_ppt settable \<lparr>df_columns = cols, df_rows = pre @ post\<rparr> ppt add)"
proof -
  have skip: "\<And>st. process_record settable add st r = Inr st"
    using assms by (rule process_record_blank)
  have "process_records settable add st0 (pre @ r # post) = process_records settable add st0 (pre @ post)"
    for st0
    by (cases "process_records settable add st0 pre") (simp_all add: process_records_append skip)
  then show ?thesis
    by (cases "process_records settable add (initial_state ppt) (pre @ post)")
       (simp_all add: skip sync_excel_to_ppt_def)
qed

theorem C7_empty_key_skipped_witness:
  "strip (r_tool blank_record) = [] \<and>
   process_record (\<lambda>w. True) True (initial_state example_ppt) blank_record
     = Inr (initial_state example_ppt) \<and>
   sync_excel_to_ppt (\<lambda>w. True)
       \<lparr>df_columns = example_columns, df_rows = [example_record] @ blank_record # []\<rparr> example_ppt True =
     map_sum id (map_option (\<lambda>out. out\<lparr>total_processed := Suc (total_processed out)\<rparr>))
       (sync_excel_to_ppt (\<lambda>w. True)
          \<lparr>df_columns = example_columns, df_rows = [example_record] @ []\<rparr> example_ppt True)"
proof -
  have h: "strip (r_tool blank_record) = []" by code_simp
  show ?thesis by (rule conjI [OF h C7_empty_key_skipped [OF h]])
qed

section \<open>Key matching (C6)\<close>

lemma update_cell_Inr:
  "j < length row \<Longrightarrow> \<exists>row' n'. update_cell new j (row, n) = Inr (row', n') \<and> length row' = length row"
  by (simp add: update_cell_def)

lemma update_row_Inr:
  assumes "ai < length row" "di < length row" "ri < length row" "si < length row"
    and "idx ''Tool Description'' = Some di" "idx ''Requestor'' = Some ri"
        "idx ''Current State'' = Some si"
  shows "\<exists>row' n. update_row r idx ai row = Inr (row', n) \<and> length row' = length row"
proof -
  obtain r1 n1 where 1: "update_cell (strip (r_use_case r)) di (row, 0) = Inr (r1, n1)" "length r1 = length row"
    using update_cell_Inr[OF assms(2)] by blast
  obtain r2 n2 where 2: "update_cell (strip (r_requestor r)) ri (r1, n1) = Inr (r2, n2)" "length r2 = length row"
    using update_cell_Inr[of ri r1] assms(3) 1(2) by metis
  obtain r3 n3 where 3: "update_cell (strip (r_status r)) si (r2, n2) = Inr (r3, n3)" "length r3 = length row"
    using update_cell_Inr[of si r2] assms(4) 2(2) by metis
  show ?thesis
    using 1 2 3 assms by (simp add: update_row_def getitem_def)
qed

text \<open>
  C6: key matching is case-insensitive and trim-normalized. The loop over the body rows of
  a table, run for a record, reports the record as found exactly when some body row's
  key-column text equals the record's key after trimming and lowercasing both. The rows
  have a cell in each mapped column and the index map knows the three other columns.
\<close>

theorem C6_key_matching:
  assumes "\<forall>row \<in> set rows. ai < length row \<and> di < length row \<and> ri < length row \<and> si < length row"
    and "idx ''Tool Description'' = Some di" "idx ''Requestor'' = Some ri"
        "idx ''Current State'' = Some si"
  shows "\<exists>rows' n. scan_rows r (strip (r_tool r)) idx ai rows =
           Inr (rows', n, \<exists>row \<in> set rows. lower (strip (cell_text (row ! ai))) = lower (strip (r_tool r)))"
  using assms(1)
proof (induction rows)
  case Nil
  then show ?case by simp
next
  case (Cons row rows)
  then have len: "ai < length row" "di < length row" "ri < length row" "si < length row" by auto
  show ?case
  proof (cases "lower (strip (cell_text (row ! ai))) = lower (strip (r_tool r))")
    case True
    obtain row' n where "update_row r idx ai row = Inr (row', n)"
      using update_row_Inr[OF len assms(2-4)] by blast
    with True len show ?thesis by simp
  next
    case False
    from Cons obtain rows' n where
      "scan_rows r (strip (r_tool r)) idx ai rows =
         Inr (rows', n, \<exists>row \<in> set rows. lower (strip (cell_text (row ! ai))) = lower (strip (r_tool r)))"
      by auto
    with False len show ?thesis by simp
  qed
qed

text \<open>The record with key \<open>'' alpha ''\<close> is found in a table whose row has the key \<open>''Alpha''\<close>.\<close>

theorem C6_key_matching_witness:
  "\<exists>rows' n. scan_rows alpha_record (strip (r_tool alpha_record)) example_indices 0 [alpha_row]
     = Inr (rows', n, True)"
proof -
  have h1: "\<forall>row \<in> set [alpha_row]. 0 < length row \<and> 1 < length row \<and> 2 < length row \<and> 3 < length row"
    by (simp add: alpha_row_def)
  have h2: "example_indices ''Tool Description'' = Some 1"
    and h3: "example_indices ''Requestor'' = Some 2"
    and h4: "example_indices ''Current State'' = Some 3"
    by (simp_all add: example_indices_def)
  have m: "lower (strip (cell_text (alpha_row ! 0))) = lower (strip (r_tool alpha_record))"
    by code_simp
  from C6_key_matching [OF h1 h2 h3 h4, of alpha_record]
  obtain rows' n where
    "scan_rows alpha_record (strip (r_tool alpha_record)) example_indices 0 [alpha_row] =
       Inr (rows', n, \<exists>row \<in> set [alpha_row].
              lower (strip (cell_text (row ! 0))) = lower (strip (r_tool alpha_record)))"
    by blast
  with m show ?thesis by simp
qed

section \<open>Tables that do not qualify (C9)\<close>

lemma header_texts_rect:
  assumes "tr_lst t = hdr # body" "cols \<le> length hdr"
  shows "header_texts t cols = Inr (map (\<lambda>c. strip (cell_text c)) (take cols hdr))"
proof -
  have "header_texts t cols = Inr (map (\<lambda>c. strip (cell_text (hdr ! c))) [0..<cols])"
    unfolding header_texts_def using assms by (intro mapM_Inr) (simp add: cell_at_def)
  also have "map (\<lambda>c. strip (cell_text (hdr ! c))) [0..<cols] = map (\<lambda>c. strip (cell_text c)) (take cols hdr)"
    using assms(2) by (intro nth_equalityI) auto
  finally show ?thesis .
qed



section \<open>Persistence (C5)\<close>

text \<open>
  C5: a run that reaches its end writes the document once, after the last record, when
  the total change count is greater than zero, and does not write it otherwise: the
  documents written are the final in-memory presentation alone, or none.
\<close>

theorem C5_saved_iff_updates:
  assumes "sync_excel_to_ppt settable excel_df ppt add = Inr (Some out)"
  shows "saved out = (if out_updates_made out > 0 then [in_memory out] else [])"
  using assms by (auto simp: sync_excel_to_ppt_def bind_eq_Inr split: if_splits)

theorem C5_saved_iff_updates_witness:
  "sync_excel_to_ppt (\<lambda>w. True) \<lparr>df_columns = example_columns, df_rows = [example_record]\<rparr>
       example_ppt True = Inr (Some example_outcome) \<and>
   saved example_outcome =
     (if out_updates_made example_outcome > 0 then [in_memory example_outcome] else [])"
proof -
  have h: "sync_excel_to_ppt (\<lambda>w. True) \<lparr>df_columns = example_columns, df_rows = [example_record]\<rparr>
       example_ppt True = Inr (Some example_outcome)"
    by code_simp
  show ?thesis by (rule conjI [OF h C5_saved_iff_updates [OF h]])
qed

section \<open>The Table Rebuilder on a grid table (C1)\<close>



lemma rectangular_rows:
  "rectangular t \<Longrightarrow> tbl_grid t = Some g \<Longrightarrow> row \<in> set (tr_lst t) \<Longrightarrow> length row = length g"
  by (auto simp: rectangular_def list_all_iff)






section \<open>The Pagination Controller on a grid table\<close>



section \<open>Column widths (C8)\<close>




section \<open>The Header Matcher on a grid table\<close>

lemma index_from_first: "x \<in> set xs \<Longrightarrow> index_from i xs x = Inr (i + first_index xs x)"
  by (induction xs arbitrary: i) (auto simp: first_index_def)

lemma index_first: "x \<in> set xs \<Longrightarrow> index xs x = Inr (first_index xs x)"
  by (simp add: index_def index_from_first)

lemma first_index_less: "x \<in> set xs \<Longrightarrow> first_index xs x < length xs"
  unfolding first_index_def by (induction xs) auto



lemma header_texts_grid:
  assumes "rectangular t" "tbl_grid t = Some g" "tr_lst t \<noteq> []"
  shows "header_texts t (length g) = Inr (header_names t)"
proof -
  from assms(3) obtain hdr body where c: "tr_lst t = hdr # body" by (cases "tr_lst t") auto
  with assms have "length hdr = length g" by (auto dest: rectangular_rows)
  with header_texts_rect[OF c, of "length g"] c show ?thesis by (simp add: header_names_def)
qed

lemma table_headers_and_indices_grid:
  assumes "rectangular t"
  shows "table_headers_and_indices t =
           Inr (if qualifies t then Some (header_names t, indices_of (header_names t)) else None)"
proof (cases "tbl_grid t")
  case None
  then show ?thesis by (simp add: table_headers_and_indices_def num_cols_def qualifies_def)
next
  case (Some g)
  show ?thesis
  proof (cases "tr_lst t = [] \<or> g = []")
    case True
    with Some show ?thesis
      by (auto simp: table_headers_and_indices_def num_cols_def num_rows_def qualifies_def)
  next
    case False
    then have ht: "header_texts t (length g) = Inr (header_names t)"
      using header_texts_grid[OF assms Some] by simp
    show ?thesis
    proof (cases "\<forall>col \<in> set required_ppt_cols. col \<in> set (header_names t)")
      case all: True
      then have "mapM (\<lambda>col. bind (index (header_names t) col) (\<lambda>i. Inr (col, i))) required_ppt_cols
                  = Inr (map (\<lambda>col. (col, first_index (header_names t) col)) required_ppt_cols)"
        by (intro mapM_Inr) (simp add: index_first)
      with all False Some ht show ?thesis
        by (simp add: table_headers_and_indices_def num_cols_def num_rows_def qualifies_def
              indices_of_def list_all_iff)
    next
      case nall: False
      with False Some ht show ?thesis
        by (simp add: table_headers_and_indices_def num_cols_def num_rows_def qualifies_def
              list_all_iff)
    qed
  qed
qed


lemma cell_text_styled [simp]: "cell_text (styled h s) = s"
  by (simp add: styled_def set_cell_style_def set_text_def)


lemma rectangular_fresh:
  assumes "rectangular t" "tbl_grid t = Some g" "tr_lst t = hdr # body"
  shows "rectangular (fresh_table settable t)"
proof -
  from assms have "length hdr = length g" by (auto dest: rectangular_rows)
  with assms(2,3) show ?thesis
    by (simp add: fresh_table_def rectangular_def restored_grid_def)
qed

section \<open>Pagination (C2)\<close>


lemma length_restored_grid [simp]: "length (restored_grid settable g) = length g"
  by (simp add: restored_grid_def)





section \<open>The search computes its closed form on grid tables\<close>

lemma update_cell_grid:
  "j < length row \<Longrightarrow>
   update_cell new j (row, n) = Inr (row[j := overwrite new (row ! j)], n + changed new (row ! j))"
  by (simp add: update_cell_def overwrite_def changed_def)

lemma update_row_grid:
  assumes "ai < length row" "di < length row" "ri < length row" "si < length row"
    and "idx ''Tool Description'' = Some di" "idx ''Requestor'' = Some ri"
        "idx ''Current State'' = Some si"
  shows "update_row r idx ai row = Inr (updated_row r (ai, di, ri, si) row)"
  using assms
  by (simp add: update_row_def getitem_def update_cell_grid updated_row_def Let_def)

lemma scan_rows_grid:
  assumes "\<forall>row \<in> set rows. ai < length row \<and> di < length row \<and> ri < length row \<and> si < length row"
    and "idx ''Tool Description'' = Some di" "idx ''Requestor'' = Some ri"
        "idx ''Current State'' = Some si"
  shows "scan_rows r k idx ai rows = Inr (sync_rows r k (ai, di, ri, si) rows)"
  using assms(1)
proof (induction rows)
  case Nil
  then show ?case by simp
next
  case (Cons row rows)
  then have len: "ai < length row" "di < length row" "ri < length row" "si < length row" by auto
  from Cons have IH: "scan_rows r k idx ai rows = Inr (sync_rows r k (ai, di, ri, si) rows)" by simp
  show ?case
    using len update_row_grid[OF len assms(2-4), of r] IH
    by (simp add: matches_def split: prod.splits)
qed

lemma indices_of_simps:
  "indices_of hn ''AI Tool'' = Some (first_index hn ''AI Tool'')"
  "indices_of hn ''Tool Description'' = Some (first_index hn ''Tool Description'')"
  "indices_of hn ''Requestor'' = Some (first_index hn ''Requestor'')"
  "indices_of hn ''Current State'' = Some (first_index hn ''Current State'')"
  by (simp_all add: indices_of_def required_ppt_cols_def)

lemma qualifies_positions:
  assumes "qualifies t" "rectangular t" "row \<in> set (tr_lst t)"
  shows "first_index (header_names t) ''AI Tool'' < length row"
    and "first_index (header_names t) ''Tool Description'' < length row"
    and "first_index (header_names t) ''Requestor'' < length row"
    and "first_index (header_names t) ''Current State'' < length row"
proof -
  from assms(1) obtain g where g: "tbl_grid t = Some g"
    by (auto simp: qualifies_def split: option.splits)
  from assms(1) g obtain hdr body where c: "tr_lst t = hdr # body"
    by (cases "tr_lst t") (auto simp: qualifies_def)
  from assms(2) g c have "length hdr = length g" by (auto dest: rectangular_rows)
  moreover from assms(2,3) g have "length row = length g" by (auto dest: rectangular_rows)
  ultimately have len: "length (header_names t) = length row"
    using c by (simp add: header_names_def)
  from assms(1) g have "\<forall>col \<in> set required_ppt_cols. col \<in> set (header_names t)"
    by (simp add: qualifies_def list_all_iff)
  then have "\<forall>col \<in> set required_ppt_cols. first_index (header_names t) col < length row"
    using len by (metis first_index_less)
  then show "first_index (header_names t) ''AI Tool'' < length row"
    and "first_index (header_names t) ''Tool Description'' < length row"
    and "first_index (header_names t) ''Requestor'' < length row"
    and "first_index (header_names t) ''Current State'' < length row"
    by (simp_all add: required_ppt_cols_def)
qed

lemma scan_table_grid:
  assumes "qualifies t" "rectangular t"
  shows "scan_table r k (indices_of (header_names t)) (first_index (header_names t) ''AI Tool'') t
           = Inr (sync_table r k t)"
proof (cases "tr_lst t")
  case Nil
  then show ?thesis by (simp add: scan_table_def sync_table_def)
next
  case (Cons hdr body)
  have "\<forall>row \<in> set body.
          first_index (header_names t) ''AI Tool'' < length row \<and>
          first_index (header_names t) ''Tool Description'' < length row \<and>
          first_index (header_names t) ''Requestor'' < length row \<and>
          first_index (header_names t) ''Current State'' < length row"
    using qualifies_positions[OF assms] Cons by simp
  from scan_rows_grid[OF this indices_of_simps(2-4), of r k]
  show ?thesis using Cons
    by (simp add: scan_table_def sync_table_def positions_of_def split: prod.splits)
qed

lemma style_header_grid:
  assumes "qualifies t" "rectangular t"
  shows "style_header t = Inr (styled_header t)"
proof -
  from assms(1) obtain g where g: "tbl_grid t = Some g"
    by (auto simp: qualifies_def split: option.splits)
  from assms(1) g obtain hdr body where c: "tr_lst t = hdr # body"
    by (cases "tr_lst t") (auto simp: qualifies_def)
  from assms(2) g c have lh: "length hdr = length g" by (auto dest: rectangular_rows)
  have "mapM (\<lambda>c. bind (cell_at t 0 c) (\<lambda>x. Inr (set_cell_style True x))) [0..<length g]
          = Inr (map (\<lambda>c. set_cell_style True (hdr ! c)) [0..<length g])"
    using c lh by (intro mapM_Inr) (simp add: cell_at_def)
  moreover have "map (\<lambda>c. set_cell_style True (hdr ! c)) [0..<length g] = map (set_cell_style True) hdr"
    using lh by (intro nth_equalityI) auto
  ultimately show ?thesis
    using g c lh by (simp add: style_header_def num_cols_def styled_header_def)
qed

lemma header_names_styled_header [simp]: "header_names (styled_header t) = header_names t"
  by (cases "tr_lst t") (simp_all add: styled_header_def header_names_def set_cell_style_def comp_def)

lemma tbl_grid_styled_header [simp]: "tbl_grid (styled_header t) = tbl_grid t"
  by (cases "tr_lst t") (simp_all add: styled_header_def)

lemma tr_lst_styled_header_Nil [simp]: "tr_lst (styled_header t) = [] \<longleftrightarrow> tr_lst t = []"
  by (cases "tr_lst t") (simp_all add: styled_header_def)

lemma qualifies_styled_header [simp]: "qualifies (styled_header t) = qualifies t"
  by (cases "tbl_grid t") (simp_all add: qualifies_def)

lemma rectangular_styled_header [simp]: "rectangular (styled_header t) = rectangular t"
  by (cases "tr_lst t") (simp_all add: rectangular_def styled_header_def split: option.splits)

lemma scan_shapes_grid:
  assumes "list_all wf_shape shs"
  shows "scan_shapes r k si j shs tg = Inr (sync_shapes r k si j shs tg)"
  using assms
proof (induction shs arbitrary: j tg)
  case Nil
  then show ?case by simp
next
  case (Cons sh shs)
  then have IH: "\<And>j tg. scan_shapes r k si j shs tg = Inr (sync_shapes r k si j shs tg)" by simp
  show ?case
  proof (cases sh)
    case (Shape nm)
    then show ?thesis by (simp add: IH split: prod.splits)
  next
    case (GraphicFrame geo t)
    with Cons.prems have rect: "rectangular t" by (simp add: wf_shape_def)
    show ?thesis
    proof (cases "qualifies t")
      case False
      with GraphicFrame rect show ?thesis
        by (simp add: table_headers_and_indices_grid IH split: prod.splits)
    next
      case True
      let ?t1 = "if tg = None then styled_header t else t"
      have q1: "qualifies ?t1" "rectangular ?t1" "header_names ?t1 = header_names t"
        using True rect by simp_all
      have st: "scan_table r k (indices_of (header_names t)) (first_index (header_names t) ''AI Tool'') ?t1
                  = Inr (sync_table r k ?t1)"
        using scan_table_grid[OF q1(1,2), of r k] q1(3) by simp
      show ?thesis
        using GraphicFrame rect True st
        by (cases "sync_table r k ?t1")
           (auto simp: table_headers_and_indices_grid style_header_grid indices_of_simps IH Let_def
                 split: prod.splits)
    qed
  qed
qed

lemma scan_slides_grid:
  assumes "wf_doc pres"
  shows "scan_slides r k si pres tg = Inr (sync_slides r k si pres tg)"
  using assms
proof (induction pres arbitrary: si tg)
  case Nil
  then show ?case by simp
next
  case (Cons sl pres)
  then have wf: "list_all wf_shape (shapes sl)" and IH: "\<And>si tg. scan_slides r k si pres tg = Inr (sync_slides r k si pres tg)"
    by (simp_all add: wf_doc_def)
  show ?case
    by (simp add: scan_shapes_grid[OF wf] IH split: prod.splits)
qed

section \<open>Updating the matched row (C3)\<close>



lemma sync_rows_not_found:
  "\<not> snd (snd (sync_rows r k p rows)) \<Longrightarrow> sync_rows r k p rows = (rows, 0, False)"
  by (induction rows) (auto split: prod.splits if_splits)




lemma tl_styled_header [simp]: "tl (tr_lst (styled_header t)) = tl (tr_lst t)"
  by (cases "tr_lst t") (simp_all add: styled_header_def)






end
